theory Spec2Isabelle
  imports Complex_Main "HOL-Library.Monad_Syntax"
begin

section \<open>Values\<close>

text \<open>
  The feature list of \<^verbatim>\<open>app.py\<close> is a Python list whose elements are Python floats
  (\<^verbatim>\<open>0.0\<close>, \<^verbatim>\<open>1.0\<close>, the BMI, the general-health grade) and Python ints (the two
  day counts and the three ordinal codes). The program does no arithmetic on them, so a
  float is modelled by the real number it denotes; the constructor keeps the Python type.
\<close>

datatype pyval = PyFloat real | PyInt int

fun is_float :: "pyval \<Rightarrow> bool" where
  "is_float (PyFloat _) = True"
| "is_float (PyInt _) = False"

fun is_int :: "pyval \<Rightarrow> bool" where
  "is_int (PyInt _) = True"
| "is_int (PyFloat _) = False"

section \<open>The model invoker\<close>

text \<open>The exceptions that loading the model and calling it can raise.\<close>

datatype py_exception =
  FileNotFoundError | PermissionError | UnpicklingError | IndexError | ValueError

text \<open>
  What \<^verbatim>\<open>pickle.load\<close> can return: Python's \<^verbatim>\<open>None\<close>, or an object with a
  \<^verbatim>\<open>predict\<close> method that takes a batch of rows and returns a sequence of labels or
  raises. The method is a function, so the model is deterministic.
\<close>

datatype 'l pyobj = PyNone | Classifier "pyval list list \<Rightarrow> py_exception + 'l list"

text \<open>
  The file \<^verbatim>\<open>predictor.pickle\<close> as a call finds it: absent, present but failing to
  open or to unpickle with some exception, or holding an object.
\<close>

datatype 'l artifact = Missing | Unreadable py_exception | Holds "'l pyobj"

text \<open>The \<^verbatim>\<open>with open\<close> block of \<^verbatim>\<open>load_model\<close>: open the file and unpickle it.\<close>

definition open_and_load :: "'l artifact \<Rightarrow> py_exception + 'l pyobj" where
  "open_and_load art =
     (case art of
        Missing \<Rightarrow> Inl FileNotFoundError
      | Unreadable e \<Rightarrow> Inl e
      | Holds obj \<Rightarrow> Inr obj)"

text \<open>
  The body of \<^verbatim>\<open>load_model\<close>: \<^verbatim>\<open>except FileNotFoundError\<close> returns \<^verbatim>\<open>None\<close>, every
  other exception leaves the function. The message shown with \<^verbatim>\<open>st.error\<close> is display
  only and is not part of the result.
\<close>

definition load_model_body :: "'l artifact \<Rightarrow> py_exception + 'l pyobj" where
  "load_model_body art =
     (case open_and_load art of
        Inr obj \<Rightarrow> Inr obj
      | Inl e \<Rightarrow> (if e = FileNotFoundError then Inr PyNone else Inl e))"

text \<open>
  \<^verbatim>\<open>@st.cache_resource\<close>: the process keeps the value the body returned (also
  \<^verbatim>\<open>None\<close>) and hands it to every later call without running the body; a call whose
  body raises stores nothing. The source never clears the cache.
\<close>

datatype 'l cache = Empty | Stored "'l pyobj"

definition load_model ::
  "'l artifact \<Rightarrow> 'l cache \<Rightarrow> 'l cache \<times> (py_exception + 'l pyobj)" where
  "load_model art c =
     (case c of
        Stored obj \<Rightarrow> (c, Inr obj)
      | Empty \<Rightarrow>
          (case load_model_body art of
             Inl e \<Rightarrow> (Empty, Inl e)
           | Inr obj \<Rightarrow> (Stored obj, Inr obj)))"

text \<open>
  \<^verbatim>\<open>predict\<close>: the result is the new cache and either an exception that leaves the call
  (\<open>Inl\<close>), \<^verbatim>\<open>None\<close> (\<open>Inr None\<close>) or a label. \<^verbatim>\<open>[0]\<close> on an empty sequence raises
  \<^verbatim>\<open>IndexError\<close>.
\<close>

definition predict ::
  "'l artifact \<Rightarrow> 'l cache \<Rightarrow> pyval list \<Rightarrow> 'l cache \<times> (py_exception + 'l option)" where
  "predict art c feature_list =
     (case load_model art c of
        (c', Inl e) \<Rightarrow> (c', Inl e)
      | (c', Inr PyNone) \<Rightarrow> (c', Inr None)
      | (c', Inr (Classifier model_predict)) \<Rightarrow>
          (case model_predict [feature_list] of
             Inl e \<Rightarrow> (c', Inl e)
           | Inr [] \<Rightarrow> (c', Inl IndexError)
           | Inr (label # _) \<Rightarrow> (c', Inr (Some label))))"

text \<open>
  The calls of one process, in order, each with the file as that call finds it: the final
  cache and the outcome of every call.
\<close>

fun run ::
  "'l cache \<Rightarrow> ('l artifact \<times> pyval list) list \<Rightarrow>
   'l cache \<times> (py_exception + 'l option) list" where
  "run c [] = (c, [])"
| "run c ((art, v) # calls) =
     (case predict art c v of
        (c', r) \<Rightarrow> (case run c' calls of (c'', rs) \<Rightarrow> (c'', r # rs)))"

text \<open>The three states the specification names, read off the cache.\<close>

datatype invoker_state = Unloaded | Loaded | LoadFailed

fun state_of :: "'l cache \<Rightarrow> invoker_state" where
  "state_of Empty = Unloaded"
| "state_of (Stored PyNone) = LoadFailed"
| "state_of (Stored (Classifier _)) = Loaded"

text \<open>A model for the examples: label 1 for a batch of one row of 19 values.\<close>

definition one_row_model :: "pyval list list \<Rightarrow> py_exception + int list" where
  "one_row_model batch =
     (if length batch = 1 \<and> length (hd batch) = 19 then Inr [1] else Inl ValueError)"

section \<open>The widgets\<close>

text \<open>
  What the user has selected in the form. A select box and a select slider hold the
  index of the chosen option, a slider holds an integer, the number input a float.
  One field per widget of \<^verbatim>\<open>main\<close>, in the order \<^verbatim>\<open>main\<close> creates them.
\<close>

record selections =
  bmi_sel :: real
  high_bp_sel :: nat
  high_chol_sel :: nat
  chol_check_sel :: nat
  stroke_sel :: nat
  heart_disease_sel :: nat
  phys_activity_sel :: nat
  fruits_sel :: nat
  veggies_sel :: nat
  smoker_sel :: nat
  alcohol_sel :: nat
  diff_walk_sel :: nat
  sex_sel :: nat
  age_sel :: nat
  education_sel :: nat
  income_sel :: nat
  gen_health_sel :: nat
  mental_health_sel :: int
  phys_health_sel :: int

text \<open>
  \<^verbatim>\<open>st.selectbox\<close> and \<^verbatim>\<open>st.select_slider\<close> return the chosen option itself. The
  widget only ever reports an index inside its option list; \<open>None\<close> stands for a state
  the widget cannot be in.
\<close>

definition selectbox :: "'a list \<Rightarrow> nat \<Rightarrow> 'a option" where
  "selectbox options i = (if i < length options then Some (options ! i) else None)"

definition select_slider :: "'a list \<Rightarrow> nat \<Rightarrow> 'a option" where
  "select_slider options i = (if i < length options then Some (options ! i) else None)"

text \<open>\<^verbatim>\<open>st.slider\<close> with integer bounds returns an int between them.\<close>

definition slider :: "int \<Rightarrow> int \<Rightarrow> int \<Rightarrow> pyval option" where
  "slider min_value max_value v =
     (if min_value \<le> v \<and> v \<le> max_value then Some (PyInt v) else None)"

text \<open>\<^verbatim>\<open>st.number_input\<close> with float bounds returns a float between them.\<close>

definition number_input :: "real \<Rightarrow> real \<Rightarrow> real \<Rightarrow> pyval option" where
  "number_input min_value max_value v =
     (if min_value \<le> v \<and> v \<le> max_value then Some (PyFloat v) else None)"

text \<open>\<^verbatim>\<open>list(range(a, b))\<close>, a list of Python ints.\<close>

definition range_list :: "int \<Rightarrow> int \<Rightarrow> pyval list" where
  "range_list a b = map PyInt [a..b - 1]"

text \<open>The option lists of the source, and the labels \<^verbatim>\<open>format_func\<close> shows for them.\<close>

definition yes_no_options :: "(string \<times> pyval) list" where
  "yes_no_options = [(''No'', PyFloat 0), (''Yes'', PyFloat 1)]"

definition sex_options :: "(string \<times> pyval) list" where
  "sex_options = [(''Female'', PyFloat 0), (''Male'', PyFloat 1)]"

definition age_options :: "pyval list" where
  "age_options = range_list 1 14"

definition age_labels :: "string list" where
  "age_labels = [''18-24'', ''25-29'', ''30-34'', ''35-39'', ''40-44'', ''45-49'',
     ''50-54'', ''55-59'', ''60-64'', ''65-69'', ''70-74'', ''75-79'', ''80+'']"

definition education_options :: "pyval list" where
  "education_options = range_list 1 7"

definition income_options :: "pyval list" where
  "income_options = range_list 1 9"

definition gen_health_options :: "pyval list" where
  "gen_health_options = [PyFloat 1, PyFloat 2, PyFloat 3, PyFloat 4, PyFloat 5]"

text \<open>The label shown for a yes/no (or sex) selection: \<^verbatim>\<open>format_func=lambda x: x[0]\<close>.\<close>

definition shown_label :: "(string \<times> pyval) list \<Rightarrow> nat \<Rightarrow> string option" where
  "shown_label options i = map_option fst (selectbox options i)"

text \<open>The label of an age selection: the option \<open>x\<close> is shown as \<^verbatim>\<open>labels[x-1]\<close>.\<close>

definition age_label :: "nat \<Rightarrow> string option" where
  "age_label i =
     (case select_slider age_options i of
        Some (PyInt x) \<Rightarrow>
          (if 1 \<le> x \<and> x \<le> int (length age_labels) then Some (age_labels ! nat (x - 1))
           else None)
      | _ \<Rightarrow> None)"

section \<open>The variables of main\<close>

text \<open>Each variable of \<^verbatim>\<open>main\<close> as a function of the selections; \<^verbatim>\<open>[1]\<close> is \<open>snd\<close>.\<close>

definition bmi :: "selections \<Rightarrow> pyval option" where
  "bmi s = number_input 18 50 (bmi_sel s)"

definition high_bp :: "selections \<Rightarrow> pyval option" where
  "high_bp s = map_option snd (selectbox yes_no_options (high_bp_sel s))"

definition high_chol :: "selections \<Rightarrow> pyval option" where
  "high_chol s = map_option snd (selectbox yes_no_options (high_chol_sel s))"

definition chol_check :: "selections \<Rightarrow> pyval option" where
  "chol_check s = map_option snd (selectbox yes_no_options (chol_check_sel s))"

definition stroke :: "selections \<Rightarrow> pyval option" where
  "stroke s = map_option snd (selectbox yes_no_options (stroke_sel s))"

definition heart_disease :: "selections \<Rightarrow> pyval option" where
  "heart_disease s = map_option snd (selectbox yes_no_options (heart_disease_sel s))"

definition phys_activity :: "selections \<Rightarrow> pyval option" where
  "phys_activity s = map_option snd (selectbox yes_no_options (phys_activity_sel s))"

definition fruits :: "selections \<Rightarrow> pyval option" where
  "fruits s = map_option snd (selectbox yes_no_options (fruits_sel s))"

definition veggies :: "selections \<Rightarrow> pyval option" where
  "veggies s = map_option snd (selectbox yes_no_options (veggies_sel s))"

definition smoker :: "selections \<Rightarrow> pyval option" where
  "smoker s = map_option snd (selectbox yes_no_options (smoker_sel s))"

definition alcohol :: "selections \<Rightarrow> pyval option" where
  "alcohol s = map_option snd (selectbox yes_no_options (alcohol_sel s))"

definition diff_walk :: "selections \<Rightarrow> pyval option" where
  "diff_walk s = map_option snd (selectbox yes_no_options (diff_walk_sel s))"

definition sex :: "selections \<Rightarrow> pyval option" where
  "sex s = map_option snd (selectbox sex_options (sex_sel s))"

definition age :: "selections \<Rightarrow> pyval option" where
  "age s = select_slider age_options (age_sel s)"

definition education :: "selections \<Rightarrow> pyval option" where
  "education s = select_slider education_options (education_sel s)"

definition income :: "selections \<Rightarrow> pyval option" where
  "income s = select_slider income_options (income_sel s)"

definition gen_health :: "selections \<Rightarrow> pyval option" where
  "gen_health s = select_slider gen_health_options (gen_health_sel s)"

definition mental_health :: "selections \<Rightarrow> pyval option" where
  "mental_health s = slider 0 30 (mental_health_sel s)"

definition phys_health :: "selections \<Rightarrow> pyval option" where
  "phys_health s = slider 0 30 (phys_health_sel s)"

text \<open>
  The list built when the button is pressed. The widgets are read in the order \<^verbatim>\<open>main\<close>
  creates them; the list has the order of the list display in the source.
\<close>

definition feature_list :: "selections \<Rightarrow> pyval list option" where
  "feature_list s = do {
     v_bmi \<leftarrow> bmi s;
     v_high_bp \<leftarrow> high_bp s;
     v_high_chol \<leftarrow> high_chol s;
     v_chol_check \<leftarrow> chol_check s;
     v_stroke \<leftarrow> stroke s;
     v_heart_disease \<leftarrow> heart_disease s;
     v_phys_activity \<leftarrow> phys_activity s;
     v_fruits \<leftarrow> fruits s;
     v_veggies \<leftarrow> veggies s;
     v_smoker \<leftarrow> smoker s;
     v_alcohol \<leftarrow> alcohol s;
     v_diff_walk \<leftarrow> diff_walk s;
     v_sex \<leftarrow> sex s;
     v_age \<leftarrow> age s;
     v_education \<leftarrow> education s;
     v_income \<leftarrow> income s;
     v_gen_health \<leftarrow> gen_health s;
     v_mental_health \<leftarrow> mental_health s;
     v_phys_health \<leftarrow> phys_health s;
     Some [
       v_high_bp, v_high_chol, v_chol_check, v_bmi, v_smoker, v_stroke,
       v_heart_disease, v_phys_activity, v_fruits, v_veggies, v_alcohol,
       v_gen_health, v_mental_health, v_phys_health, v_diff_walk, v_sex,
       v_age, v_education, v_income
     ]
   }"

text \<open>The selections the widgets can report: every one inside its widget's domain.\<close>

definition valid_selections :: "selections \<Rightarrow> bool" where
  "valid_selections s \<longleftrightarrow>
     18 \<le> bmi_sel s \<and> bmi_sel s \<le> 50 \<and>
     high_bp_sel s < length yes_no_options \<and>
     high_chol_sel s < length yes_no_options \<and>
     chol_check_sel s < length yes_no_options \<and>
     stroke_sel s < length yes_no_options \<and>
     heart_disease_sel s < length yes_no_options \<and>
     phys_activity_sel s < length yes_no_options \<and>
     fruits_sel s < length yes_no_options \<and>
     veggies_sel s < length yes_no_options \<and>
     smoker_sel s < length yes_no_options \<and>
     alcohol_sel s < length yes_no_options \<and>
     diff_walk_sel s < length yes_no_options \<and>
     sex_sel s < length sex_options \<and>
     age_sel s < length age_options \<and>
     education_sel s < length education_options \<and>
     income_sel s < length income_options \<and>
     gen_health_sel s < length gen_health_options \<and>
     0 \<le> mental_health_sel s \<and> mental_health_sel s \<le> 30 \<and>
     0 \<le> phys_health_sel s \<and> phys_health_sel s \<le> 30"

text \<open>
  The form as it first renders: each select box and select slider on its first option,
  except the general-health slider (\<^verbatim>\<open>value=3.0\<close>), BMI 25.0, both day counts 0.
\<close>

definition initial_selections :: selections where
  "initial_selections = \<lparr>
     bmi_sel = 25, high_bp_sel = 0, high_chol_sel = 0, chol_check_sel = 0, stroke_sel = 0,
     heart_disease_sel = 0, phys_activity_sel = 0, fruits_sel = 0, veggies_sel = 0,
     smoker_sel = 0, alcohol_sel = 0, diff_walk_sel = 0, sex_sel = 0, age_sel = 0,
     education_sel = 0, income_sel = 0, gen_health_sel = 2, mental_health_sel = 0,
     phys_health_sel = 0 \<rparr>"

text \<open>
  The form of the worked example: BMI 25.0, high blood pressure ``Yes'', every other yes/no
  field ``No'', sex ``Male'', age group 3, education 4, income 5, general health 3.0, both
  day counts 0.
\<close>

definition example_selections :: selections where
  "example_selections = \<lparr>
     bmi_sel = 25, high_bp_sel = 1, high_chol_sel = 0, chol_check_sel = 0, stroke_sel = 0,
     heart_disease_sel = 0, phys_activity_sel = 0, fruits_sel = 0, veggies_sel = 0,
     smoker_sel = 0, alcohol_sel = 0, diff_walk_sel = 0, sex_sel = 1, age_sel = 2,
     education_sel = 3, income_sel = 4, gen_health_sel = 2, mental_health_sel = 0,
     phys_health_sel = 0 \<rparr>"

definition example_features :: "pyval list" where
  "example_features =
     [PyFloat 1, PyFloat 0, PyFloat 0, PyFloat 25, PyFloat 0, PyFloat 0, PyFloat 0,
      PyFloat 0, PyFloat 0, PyFloat 0, PyFloat 0, PyFloat 3, PyInt 0, PyInt 0, PyFloat 0,
      PyFloat 1, PyInt 3, PyInt 4, PyInt 5]"

text \<open>
  The list in closed form, for the proofs: what \<open>feature_list\<close> returns on selections
  inside the widgets' domains (lemma \<open>feature_list_valid\<close>).
\<close>

definition encoded :: "selections \<Rightarrow> pyval list" where
  "encoded s = [
     PyFloat (real (high_bp_sel s)), PyFloat (real (high_chol_sel s)),
     PyFloat (real (chol_check_sel s)), PyFloat (bmi_sel s), PyFloat (real (smoker_sel s)),
     PyFloat (real (stroke_sel s)), PyFloat (real (heart_disease_sel s)),
     PyFloat (real (phys_activity_sel s)), PyFloat (real (fruits_sel s)),
     PyFloat (real (veggies_sel s)), PyFloat (real (alcohol_sel s)),
     PyFloat (real (gen_health_sel s) + 1), PyInt (mental_health_sel s),
     PyInt (phys_health_sel s), PyFloat (real (diff_walk_sel s)), PyFloat (real (sex_sel s)),
     PyInt (int (age_sel s) + 1), PyInt (int (education_sel s) + 1),
     PyInt (int (income_sel s) + 1)]"

section \<open>The documented feature order\<close>

datatype feature =
  HighBP | HighChol | CholCheck | BMI | Smoker | Stroke | HeartDiseaseOrAttack
  | PhysActivity | Fruits | Veggies | HvyAlcoholConsump | GenHealth | MentHlth
  | PhysHlth | DiffWalk | Sex | Age | Education | Income

text \<open>The position (from 1) that the data model gives each feature.\<close>

fun spec_position :: "feature \<Rightarrow> nat" where
  "spec_position HighBP = 1"
| "spec_position HighChol = 2"
| "spec_position CholCheck = 3"
| "spec_position BMI = 4"
| "spec_position Smoker = 5"
| "spec_position Stroke = 6"
| "spec_position HeartDiseaseOrAttack = 7"
| "spec_position PhysActivity = 8"
| "spec_position Fruits = 9"
| "spec_position Veggies = 10"
| "spec_position HvyAlcoholConsump = 11"
| "spec_position GenHealth = 12"
| "spec_position MentHlth = 13"
| "spec_position PhysHlth = 14"
| "spec_position DiffWalk = 15"
| "spec_position Sex = 16"
| "spec_position Age = 17"
| "spec_position Education = 18"
| "spec_position Income = 19"

text \<open>The variable of \<^verbatim>\<open>main\<close> that holds each feature's value.\<close>

fun field_value :: "feature \<Rightarrow> selections \<Rightarrow> pyval option" where
  "field_value HighBP = high_bp"
| "field_value HighChol = high_chol"
| "field_value CholCheck = chol_check"
| "field_value BMI = bmi"
| "field_value Smoker = smoker"
| "field_value Stroke = stroke"
| "field_value HeartDiseaseOrAttack = heart_disease"
| "field_value PhysActivity = phys_activity"
| "field_value Fruits = fruits"
| "field_value Veggies = veggies"
| "field_value HvyAlcoholConsump = alcohol"
| "field_value GenHealth = gen_health"
| "field_value MentHlth = mental_health"
| "field_value PhysHlth = phys_health"
| "field_value DiffWalk = diff_walk"
| "field_value Sex = sex"
| "field_value Age = age"
| "field_value Education = education"
| "field_value Income = income"

text \<open>The state of the widget behind each feature, to compare two forms field by field.\<close>

datatype widget_state = Chosen nat | IntValue int | FloatValue real

fun widget_of :: "feature \<Rightarrow> selections \<Rightarrow> widget_state" where
  "widget_of HighBP s = Chosen (high_bp_sel s)"
| "widget_of HighChol s = Chosen (high_chol_sel s)"
| "widget_of CholCheck s = Chosen (chol_check_sel s)"
| "widget_of BMI s = FloatValue (bmi_sel s)"
| "widget_of Smoker s = Chosen (smoker_sel s)"
| "widget_of Stroke s = Chosen (stroke_sel s)"
| "widget_of HeartDiseaseOrAttack s = Chosen (heart_disease_sel s)"
| "widget_of PhysActivity s = Chosen (phys_activity_sel s)"
| "widget_of Fruits s = Chosen (fruits_sel s)"
| "widget_of Veggies s = Chosen (veggies_sel s)"
| "widget_of HvyAlcoholConsump s = Chosen (alcohol_sel s)"
| "widget_of GenHealth s = Chosen (gen_health_sel s)"
| "widget_of MentHlth s = IntValue (mental_health_sel s)"
| "widget_of PhysHlth s = IntValue (phys_health_sel s)"
| "widget_of DiffWalk s = Chosen (diff_walk_sel s)"
| "widget_of Sex s = Chosen (sex_sel s)"
| "widget_of Age s = Chosen (age_sel s)"
| "widget_of Education s = Chosen (education_sel s)"
| "widget_of Income s = Chosen (income_sel s)"

text \<open>The twelve two-way fields.\<close>

definition binary_fields :: "feature list" where
  "binary_fields = [HighBP, HighChol, CholCheck, Stroke, HeartDiseaseOrAttack, PhysActivity,
     Fruits, Veggies, Smoker, HvyAlcoholConsump, DiffWalk, Sex]"

section \<open>Facts about the widgets\<close>

lemma length_range_list: "length (range_list a b) = nat (b - a)"
  by (simp add: range_list_def)

lemma nth_range_list: "int i < b - a \<Longrightarrow> range_list a b ! i = PyInt (a + int i)"
  by (simp add: range_list_def)

lemma yes_no_nth: "i < 2 \<Longrightarrow> snd (yes_no_options ! i) = PyFloat (real i)"
  by (cases i) (simp_all add: yes_no_options_def)

lemma sex_nth: "i < 2 \<Longrightarrow> snd (sex_options ! i) = PyFloat (real i)"
  by (cases i) (simp_all add: sex_options_def)

lemma gen_health_nth: "i < 5 \<Longrightarrow> gen_health_options ! i = PyFloat (real i + 1)"
proof -
  assume "i < 5"
  then have "i = 0 \<or> i = 1 \<or> i = 2 \<or> i = 3 \<or> i = 4" by arith
  then show ?thesis by (auto simp: gen_health_options_def)
qed

lemma option_lengths:
  "length yes_no_options = 2" "length sex_options = 2" "length age_options = 13"
  "length education_options = 6" "length income_options = 8" "length gen_health_options = 5"
  by (simp_all add: yes_no_options_def sex_options_def age_options_def education_options_def
      income_options_def gen_health_options_def length_range_list)

lemma yes_no_select:
  "i < 2 \<Longrightarrow> map_option snd (selectbox yes_no_options i) = Some (PyFloat (real i))"
  by (simp add: selectbox_def option_lengths yes_no_nth)

lemma sex_select:
  "i < 2 \<Longrightarrow> map_option snd (selectbox sex_options i) = Some (PyFloat (real i))"
  by (simp add: selectbox_def option_lengths sex_nth)

lemma age_select: "i < 13 \<Longrightarrow> select_slider age_options i = Some (PyInt (int i + 1))"
  by (simp add: select_slider_def age_options_def length_range_list nth_range_list)

lemma education_select:
  "i < 6 \<Longrightarrow> select_slider education_options i = Some (PyInt (int i + 1))"
  by (simp add: select_slider_def education_options_def length_range_list nth_range_list)

lemma income_select: "i < 8 \<Longrightarrow> select_slider income_options i = Some (PyInt (int i + 1))"
  by (simp add: select_slider_def income_options_def length_range_list nth_range_list)

lemma gen_health_select:
  "i < 5 \<Longrightarrow> select_slider gen_health_options i = Some (PyFloat (real i + 1))"
  by (simp add: select_slider_def option_lengths gen_health_nth)

section \<open>The feature list in closed form\<close>

lemma fields_valid:
  assumes "valid_selections s"
  shows "bmi s = Some (PyFloat (bmi_sel s))"
    and "high_bp s = Some (PyFloat (real (high_bp_sel s)))"
    and "high_chol s = Some (PyFloat (real (high_chol_sel s)))"
    and "chol_check s = Some (PyFloat (real (chol_check_sel s)))"
    and "stroke s = Some (PyFloat (real (stroke_sel s)))"
    and "heart_disease s = Some (PyFloat (real (heart_disease_sel s)))"
    and "phys_activity s = Some (PyFloat (real (phys_activity_sel s)))"
    and "fruits s = Some (PyFloat (real (fruits_sel s)))"
    and "veggies s = Some (PyFloat (real (veggies_sel s)))"
    and "smoker s = Some (PyFloat (real (smoker_sel s)))"
    and "alcohol s = Some (PyFloat (real (alcohol_sel s)))"
    and "diff_walk s = Some (PyFloat (real (diff_walk_sel s)))"
    and "sex s = Some (PyFloat (real (sex_sel s)))"
    and "age s = Some (PyInt (int (age_sel s) + 1))"
    and "education s = Some (PyInt (int (education_sel s) + 1))"
    and "income s = Some (PyInt (int (income_sel s) + 1))"
    and "gen_health s = Some (PyFloat (real (gen_health_sel s) + 1))"
    and "mental_health s = Some (PyInt (mental_health_sel s))"
    and "phys_health s = Some (PyInt (phys_health_sel s))"
  using assms
  by (simp_all add: valid_selections_def option_lengths bmi_def high_bp_def high_chol_def
      chol_check_def stroke_def heart_disease_def phys_activity_def fruits_def veggies_def
      smoker_def alcohol_def diff_walk_def sex_def age_def education_def income_def
      gen_health_def mental_health_def phys_health_def yes_no_select sex_select age_select
      education_select income_select gen_health_select slider_def number_input_def)

lemma feature_list_valid: "valid_selections s \<Longrightarrow> feature_list s = Some (encoded s)"
  by (simp add: feature_list_def fields_valid encoded_def)

lemma length_encoded: "length (encoded s) = 19"
  by (simp add: encoded_def)

lemma encoded_at_position:
  "valid_selections s \<Longrightarrow> field_value f s = Some (encoded s ! (spec_position f - 1))"
  by (cases f) (simp_all add: fields_valid encoded_def)

lemma initial_valid: "valid_selections initial_selections"
  by (simp add: valid_selections_def initial_selections_def option_lengths)

lemma example_valid: "valid_selections example_selections"
  by (simp add: valid_selections_def example_selections_def option_lengths)

lemma older_valid: "valid_selections (initial_selections\<lparr>age_sel := 5\<rparr>)"
  by (simp add: valid_selections_def initial_selections_def option_lengths)

text \<open>
  The converse: the widgets' own guards. A list is produced only from selections inside
  the bounds and option lists that \<^verbatim>\<open>main\<close> passes to the widgets.
\<close>

lemma feature_list_fields:
  assumes "feature_list s = Some v"
  shows "\<exists>a b c d e f g h i j k l m n p q r t u.
     bmi s = Some a \<and> high_bp s = Some b \<and> high_chol s = Some c \<and> chol_check s = Some d \<and>
     stroke s = Some e \<and> heart_disease s = Some f \<and> phys_activity s = Some g \<and>
     fruits s = Some h \<and> veggies s = Some i \<and> smoker s = Some j \<and> alcohol s = Some k \<and>
     diff_walk s = Some l \<and> sex s = Some m \<and> age s = Some n \<and> education s = Some p \<and>
     income s = Some q \<and> gen_health s = Some r \<and> mental_health s = Some t \<and>
     phys_health s = Some u"
  using assms unfolding feature_list_def bind_eq_Some_conv by blast

lemma selectbox_Some: "selectbox options i = Some x \<Longrightarrow> i < length options"
  by (simp add: selectbox_def split: if_splits)

lemma select_slider_Some: "select_slider options i = Some x \<Longrightarrow> i < length options"
  by (simp add: select_slider_def split: if_splits)

lemma slider_Some: "slider lo hi x = Some y \<Longrightarrow> lo \<le> x \<and> x \<le> hi"
  by (simp add: slider_def split: if_splits)

lemma number_input_Some: "number_input lo hi x = Some y \<Longrightarrow> lo \<le> x \<and> x \<le> hi"
  by (simp add: number_input_def split: if_splits)

lemma feature_list_Some_valid:
  assumes "feature_list s = Some v"
  shows "valid_selections s"
proof -
  from feature_list_fields [OF assms] obtain a b c d e f g h i j k l m n p q r t u where
    "bmi s = Some a" "high_bp s = Some b" "high_chol s = Some c" "chol_check s = Some d"
    "stroke s = Some e" "heart_disease s = Some f" "phys_activity s = Some g"
    "fruits s = Some h" "veggies s = Some i" "smoker s = Some j" "alcohol s = Some k"
    "diff_walk s = Some l" "sex s = Some m" "age s = Some n" "education s = Some p"
    "income s = Some q" "gen_health s = Some r" "mental_health s = Some t"
    "phys_health s = Some u"
    by blast
  then show ?thesis
    unfolding valid_selections_def bmi_def high_bp_def high_chol_def chol_check_def stroke_def
      heart_disease_def phys_activity_def fruits_def veggies_def smoker_def alcohol_def
      diff_walk_def sex_def age_def education_def income_def gen_health_def mental_health_def
      phys_health_def
    by (intro conjI)
      (auto dest: selectbox_Some select_slider_Some slider_Some number_input_Some)
qed

lemma day_counts_from_sliders:
  assumes "feature_list s = Some v"
  shows "0 \<le> mental_health_sel s \<and> mental_health_sel s \<le> 30 \<and>
         0 \<le> phys_health_sel s \<and> phys_health_sel s \<le> 30"
proof -
  from feature_list_fields [OF assms] obtain t u where
    "mental_health s = Some t" "phys_health s = Some u" by blast
  then have "slider 0 30 (mental_health_sel s) = Some t"
    "slider 0 30 (phys_health_sel s) = Some u"
    by (simp_all add: mental_health_def phys_health_def)
  from slider_Some [OF this(1)] slider_Some [OF this(2)] show ?thesis by simp
qed

lemma ordinal_indices_from_options:
  assumes "feature_list s = Some v"
  shows "age_sel s < length age_options \<and> education_sel s < length education_options \<and>
         income_sel s < length income_options \<and> gen_health_sel s < length gen_health_options"
proof -
  from feature_list_fields [OF assms] obtain n p q r where
    "age s = Some n" "education s = Some p" "income s = Some q" "gen_health s = Some r"
    by blast
  then show ?thesis
    unfolding age_def education_def income_def gen_health_def
    by (auto dest: select_slider_Some)
qed

lemma example_feature_list: "feature_list example_selections = Some example_features"
proof -
  have "encoded example_selections = example_features"
    by (simp add: encoded_def example_selections_def example_features_def)
  with feature_list_valid [OF example_valid] show ?thesis
    by simp
qed

section \<open>The encoder\<close>

text \<open>
  C1. For every combination of selections the widgets can report, the encoder produces a
  list of 19 values, and for every documented feature the value at the feature's
  documented position is the value of that feature's variable: position 1 HighBP, 2
  HighChol, 3 CholCheck, 4 BMI, 5 Smoker, 6 Stroke, 7 HeartDiseaseOrAttack, 8 PhysActivity,
  9 Fruits, 10 Veggies, 11 HvyAlcoholConsump, 12 GenHealth, 13 MentHlth, 14 PhysHlth,
  15 DiffWalk, 16 Sex, 17 Age, 18 Education, 19 Income.
\<close>

theorem feature_order:
  assumes "valid_selections s"
  shows "\<exists>v. feature_list s = Some v \<and> length v = 19 \<and>
           (\<forall>f. field_value f s = Some (v ! (spec_position f - 1)))"
  using assms by (simp add: feature_list_valid length_encoded encoded_at_position)

theorem feature_order_witness:
  "valid_selections initial_selections \<and>
   (\<exists>v. feature_list initial_selections = Some v \<and> length v = 19 \<and>
      (\<forall>f. field_value f initial_selections = Some (v ! (spec_position f - 1))))"
  using feature_order [OF initial_valid] initial_valid by blast

text \<open>
  C2. With BMI 25.0, HighBP ``Yes'', every other yes/no field ``No'', GenHealth 3, MentHlth
  0, PhysHlth 0, age group 3 (``30-34''), Education 4, Income 5 and Sex ``Male'', the
  encoder produces exactly
  \<^verbatim>\<open>[1.0, 0.0, 0.0, 25.0, 0.0, 0.0, 0.0, 0.0, 0.0, 0.0, 0.0, 3.0, 0, 0, 0.0, 1.0, 3, 4, 5]\<close>.
  The first four conjuncts say that \<open>example_selections\<close> is this form, by the labels the
  widgets show.
\<close>

theorem example_selections_vector:
  "shown_label yes_no_options (high_bp_sel example_selections) = Some ''Yes'' \<and>
   shown_label yes_no_options (high_chol_sel example_selections) = Some ''No'' \<and>
   shown_label sex_options (sex_sel example_selections) = Some ''Male'' \<and>
   age_label (age_sel example_selections) = Some ''30-34'' \<and>
   feature_list example_selections =
     Some [PyFloat 1, PyFloat 0, PyFloat 0, PyFloat 25, PyFloat 0, PyFloat 0, PyFloat 0,
       PyFloat 0, PyFloat 0, PyFloat 0, PyFloat 0, PyFloat 3, PyInt 0, PyInt 0, PyFloat 0,
       PyFloat 1, PyInt 3, PyInt 4, PyInt 5]"
proof -
  have "feature_list example_selections = Some (encoded example_selections)"
    by (rule feature_list_valid [OF example_valid])
  moreover have "age_label 2 = Some ''30-34''"
    by (simp add: age_label_def age_select age_labels_def)
  ultimately show ?thesis
    by (simp add: encoded_def example_selections_def shown_label_def selectbox_def
        yes_no_options_def sex_options_def)
qed

lemma zero_or_one: "i < 2 \<Longrightarrow> i = 0 \<or> i = Suc 0"
  by arith

text \<open>
  C3. For each of the twelve two-way fields (HighBP, HighChol, CholCheck, Stroke,
  HeartDiseaseOrAttack, PhysActivity, Fruits, Veggies, Smoker, HvyAlcoholConsump, DiffWalk,
  Sex) and every selection of it, the encoded value is the float 0.0 or the float 1.0.
\<close>

theorem binary_fields_zero_or_one:
  assumes "valid_selections s"
  shows "\<forall>f \<in> set binary_fields.
           field_value f s = Some (PyFloat 0) \<or> field_value f s = Some (PyFloat 1)"
proof -
  from assms have "high_bp_sel s < 2" "high_chol_sel s < 2" "chol_check_sel s < 2"
    "stroke_sel s < 2" "heart_disease_sel s < 2" "phys_activity_sel s < 2" "fruits_sel s < 2"
    "veggies_sel s < 2" "smoker_sel s < 2" "alcohol_sel s < 2" "diff_walk_sel s < 2"
    "sex_sel s < 2"
    by (simp_all add: valid_selections_def option_lengths)
  then show ?thesis
    by (simp add: binary_fields_def fields_valid [OF assms] zero_or_one)
qed

theorem binary_fields_zero_or_one_witness:
  "valid_selections example_selections \<and>
   field_value HighBP example_selections = Some (PyFloat 1) \<and>
   field_value Sex example_selections = Some (PyFloat 1) \<and>
   field_value Smoker example_selections = Some (PyFloat 0)"
proof -
  have "field_value HighBP example_selections = Some (PyFloat 1)"
    using binary_fields_zero_or_one [OF example_valid]
    by (simp add: binary_fields_def high_bp_def selectbox_def yes_no_options_def
        example_selections_def)
  moreover have "field_value Sex example_selections = Some (PyFloat 1)"
    "field_value Smoker example_selections = Some (PyFloat 0)"
    using fields_valid [OF example_valid] by (simp_all add: example_selections_def)
  ultimately show ?thesis
    using example_valid by simp
qed

text \<open>
  Counterexample to C7 as stated: on the form as it first renders, the list holds a Python
  int (the day count 0 at position 13), so not every element is a float.
\<close>

theorem not_all_floats:
  "valid_selections initial_selections \<and> feature_list initial_selections \<noteq> None \<and>
   \<not> list_all is_float (the (feature_list initial_selections))"
  by (simp add: initial_valid feature_list_valid encoded_def)

text \<open>
  C7, amended. Every element of every feature list the encoder produces is a number:
  positions 1 to 12, 15 and 16 (the yes/no fields, BMI, GenHealth, Sex) carry floats, and
  positions 13, 14, 17, 18 and 19 (MentHlth, PhysHlth, Age, Education, Income) carry ints.
\<close>

theorem float_and_int_positions:
  assumes "valid_selections s"
  shows "map_option (map is_float) (feature_list s) =
           Some [True, True, True, True, True, True, True, True, True, True, True, True,
             False, False, True, True, False, False, False]
         \<and> map_option (map is_int) (feature_list s) =
           Some [False, False, False, False, False, False, False, False, False, False, False,
             False, True, True, False, False, True, True, True]"
  using assms by (simp add: feature_list_valid encoded_def)

theorem float_and_int_positions_witness:
  "valid_selections initial_selections \<and>
   map_option (map is_float) (feature_list initial_selections) =
     Some [True, True, True, True, True, True, True, True, True, True, True, True,
       False, False, True, True, False, False, False]"
  using float_and_int_positions [OF initial_valid] initial_valid by simp

text \<open>
  Counterexample to C8 as stated: the general-health grade in the list is not an integer
  code. The select slider's options are the floats 1.0 to 5.0, and on the example form the
  list holds the float 3.0 at position 12.
\<close>

theorem gen_health_not_int:
  "feature_list example_selections \<noteq> None \<and>
   the (feature_list example_selections) ! (spec_position GenHealth - 1) = PyFloat 3 \<and>
   \<not> is_int (the (feature_list example_selections) ! (spec_position GenHealth - 1))"
  by (simp add: example_feature_list example_features_def)

text \<open>
  C8, amended. In every list the encoder produces, the ordinal and count fields are the
  widgets' values unmodified (the chosen option of the select slider, the value of the
  slider) and lie in their documented ranges: Age is an int from 1 to 13, Education an int
  from 1 to 6, Income an int from 1 to 8, MentHlth and PhysHlth are ints from 0 to 30, and
  GenHealth is a float, one of 1.0, 2.0, 3.0, 4.0, 5.0. The ranges are those of the option
  lists and slider bounds in \<^verbatim>\<open>main\<close>: the only hypothesis is that the list was produced.
\<close>

theorem ordinal_and_count_fields:
  assumes "feature_list s = Some v"
  shows "v ! (spec_position Age - 1) = age_options ! age_sel s \<and>
         v ! (spec_position Education - 1) = education_options ! education_sel s \<and>
         v ! (spec_position Income - 1) = income_options ! income_sel s \<and>
         v ! (spec_position GenHealth - 1) = gen_health_options ! gen_health_sel s \<and>
         v ! (spec_position MentHlth - 1) = PyInt (mental_health_sel s) \<and>
         v ! (spec_position PhysHlth - 1) = PyInt (phys_health_sel s) \<and>
         (\<exists>a. v ! (spec_position Age - 1) = PyInt a \<and> 1 \<le> a \<and> a \<le> 13) \<and>
         (\<exists>e. v ! (spec_position Education - 1) = PyInt e \<and> 1 \<le> e \<and> e \<le> 6) \<and>
         (\<exists>n. v ! (spec_position Income - 1) = PyInt n \<and> 1 \<le> n \<and> n \<le> 8) \<and>
         (\<exists>g. v ! (spec_position GenHealth - 1) = PyFloat g \<and> g \<in> {1, 2, 3, 4, 5}) \<and>
         (\<exists>m. v ! (spec_position MentHlth - 1) = PyInt m \<and> 0 \<le> m \<and> m \<le> 30) \<and>
         (\<exists>p. v ! (spec_position PhysHlth - 1) = PyInt p \<and> 0 \<le> p \<and> p \<le> 30)"
proof -
  from ordinal_indices_from_options [OF assms]
  have b: "age_sel s < 13" "education_sel s < 6" "income_sel s < 8" "gen_health_sel s < 5"
    by (simp_all add: option_lengths)
  from day_counts_from_sliders [OF assms]
  have d: "0 \<le> mental_health_sel s" "mental_health_sel s \<le> 30"
    "0 \<le> phys_health_sel s" "phys_health_sel s \<le> 30"
    by simp_all
  have g: "real (gen_health_sel s) + 1 \<in> {1, 2, 3, 4, 5}"
  proof -
    from b(4) have "gen_health_sel s = 0 \<or> gen_health_sel s = 1 \<or> gen_health_sel s = 2
      \<or> gen_health_sel s = 3 \<or> gen_health_sel s = 4" by arith
    then show ?thesis by auto
  qed
  have o: "age_options ! age_sel s = PyInt (int (age_sel s) + 1)"
    "education_options ! education_sel s = PyInt (int (education_sel s) + 1)"
    "income_options ! income_sel s = PyInt (int (income_sel s) + 1)"
    "gen_health_options ! gen_health_sel s = PyFloat (real (gen_health_sel s) + 1)"
    using b by (simp_all add: age_options_def education_options_def income_options_def
        nth_range_list gen_health_nth)
  from feature_list_valid [OF feature_list_Some_valid [OF assms]] assms
  have v: "v = encoded s" by simp
  show ?thesis
    using b d g unfolding v by (simp add: encoded_def o)
qed

theorem ordinal_and_count_fields_witness:
  "feature_list example_selections = Some example_features \<and>
   example_features ! 16 = PyInt 3 \<and> example_features ! 17 = PyInt 4 \<and>
   example_features ! 18 = PyInt 5 \<and> example_features ! 11 = PyFloat 3 \<and>
   example_features ! 12 = PyInt (mental_health_sel example_selections) \<and>
   example_features ! 13 = PyInt (phys_health_sel example_selections)"
proof -
  have o: "age_options ! 2 = PyInt 3" "education_options ! 3 = PyInt 4"
    "income_options ! 4 = PyInt 5" "gen_health_options ! 2 = PyFloat 3"
    by (simp_all add: age_options_def education_options_def income_options_def
        nth_range_list gen_health_options_def)
  have i: "age_sel example_selections = 2" "education_sel example_selections = 3"
    "income_sel example_selections = 4" "gen_health_sel example_selections = 2"
    by (simp_all add: example_selections_def)
  from ordinal_and_count_fields [OF example_feature_list] example_feature_list
  show ?thesis
    unfolding i o by simp
qed

section \<open>One field, one position\<close>

lemma below_19:
  "(i::nat) < 19 \<Longrightarrow>
   i \<in> {0, 1, 2, 3, 4, 5, 6, 7, 8, 9, 10, 11, 12, 13, 14, 15, 16, 17, 18}"
  by (simp add: numeral_eq_Suc less_Suc_eq)

lemma position_onto:
  assumes "i < 19"
  shows "\<exists>g. spec_position g - 1 = i"
proof -
  let ?fs = "[HighBP, HighChol, CholCheck, BMI, Smoker, Stroke, HeartDiseaseOrAttack,
    PhysActivity, Fruits, Veggies, HvyAlcoholConsump, GenHealth, MentHlth, PhysHlth,
    DiffWalk, Sex, Age, Education, Income]"
  have all: "\<forall>k \<in> {0, 1, 2, 3, 4, 5, 6, 7, 8, 9, 10, 11, 12, 13, 14, 15, 16, 17, 18}.
      spec_position (?fs ! k) - 1 = k"
    by simp
  have "spec_position (?fs ! i) - 1 = i"
    by (rule bspec [OF all below_19 [OF assms]])
  then show ?thesis ..
qed

lemma encoded_same:
  "widget_of g s = widget_of g s' \<Longrightarrow>
   encoded s ! (spec_position g - 1) = encoded s' ! (spec_position g - 1)"
  by (cases g) (simp_all add: encoded_def)

lemma encoded_differs:
  "widget_of f s \<noteq> widget_of f s' \<Longrightarrow>
   encoded s ! (spec_position f - 1) \<noteq> encoded s' ! (spec_position f - 1)"
  by (cases f) (simp_all add: encoded_def)

text \<open>
  C10. For two complete sets of selections that differ in exactly one field, the two
  feature lists differ at the position of that field and nowhere else: the other 18
  positions are unchanged.
\<close>

theorem one_field_one_position:
  assumes "valid_selections s" and "valid_selections s'"
    and others: "\<forall>g. g \<noteq> f \<longrightarrow> widget_of g s = widget_of g s'"
    and differs: "widget_of f s \<noteq> widget_of f s'"
  shows "\<exists>v v'. feature_list s = Some v \<and> feature_list s' = Some v' \<and>
           length v = 19 \<and> length v' = 19 \<and>
           (\<forall>i < 19. i \<noteq> spec_position f - 1 \<longrightarrow> v ! i = v' ! i) \<and>
           v ! (spec_position f - 1) \<noteq> v' ! (spec_position f - 1)"
proof -
  have "encoded s ! i = encoded s' ! i" if "i < 19" "i \<noteq> spec_position f - 1" for i
  proof -
    from that(1) obtain g where g: "spec_position g - 1 = i"
      using position_onto by blast
    with that(2) have "g \<noteq> f" by auto
    with others have "widget_of g s = widget_of g s'" by simp
    from encoded_same [OF this] g show ?thesis by simp
  qed
  with encoded_differs [OF differs] assms(1,2) show ?thesis
    by (simp add: feature_list_valid length_encoded)
qed

theorem one_field_one_position_witness:
  "valid_selections initial_selections \<and>
   valid_selections (initial_selections\<lparr>age_sel := 5\<rparr>) \<and>
   (\<exists>v v'. feature_list initial_selections = Some v \<and>
      feature_list (initial_selections\<lparr>age_sel := 5\<rparr>) = Some v' \<and>
      take 16 v = take 16 v' \<and> drop 17 v = drop 17 v' \<and> v ! 16 = PyInt 1 \<and> v' ! 16 = PyInt 6)"
proof -
  have "\<forall>g. g \<noteq> Age \<longrightarrow>
      widget_of g initial_selections = widget_of g (initial_selections\<lparr>age_sel := 5\<rparr>)"
  proof (intro allI impI)
    fix g :: feature
    assume "g \<noteq> Age"
    then show "widget_of g initial_selections = widget_of g (initial_selections\<lparr>age_sel := 5\<rparr>)"
      by (cases g) simp_all
  qed
  moreover have "widget_of Age initial_selections
      \<noteq> widget_of Age (initial_selections\<lparr>age_sel := 5\<rparr>)"
    by (simp add: initial_selections_def)
  ultimately obtain v v' where
    "feature_list initial_selections = Some v"
    "feature_list (initial_selections\<lparr>age_sel := 5\<rparr>) = Some v'"
    using one_field_one_position [OF initial_valid older_valid] by blast
  moreover from this have "v = encoded initial_selections"
    "v' = encoded (initial_selections\<lparr>age_sel := 5\<rparr>)"
    using feature_list_valid [OF initial_valid] feature_list_valid [OF older_valid]
    by simp_all
  then have "take 16 v = take 16 v' \<and> drop 17 v = drop 17 v' \<and> v ! 16 = PyInt 1
      \<and> v' ! 16 = PyInt 6"
    by (simp add: encoded_def initial_selections_def)
  ultimately show ?thesis
    using initial_valid older_valid by blast
qed

section \<open>The invoker\<close>

lemma predict_stored: "fst (predict art (Stored obj) v) = Stored obj"
  by (simp add: predict_def load_model_def split: pyobj.split sum.split list.split)

lemma predict_stored_artifact: "predict art (Stored obj) v = predict art' (Stored obj) v"
  by (simp add: predict_def load_model_def)

lemma predict_none: "predict art (Stored PyNone) v = (Stored PyNone, Inr None)"
  by (simp add: predict_def load_model_def)

lemma predict_missing: "predict Missing Empty v = (Stored PyNone, Inr None)"
  by (simp add: predict_def load_model_def load_model_body_def open_and_load_def)

lemma predict_holds: "predict (Holds obj) Empty v = predict art (Stored obj) v"
  by (simp add: predict_def load_model_def load_model_body_def open_and_load_def)

lemma predict_unreadable:
  "e \<noteq> FileNotFoundError \<Longrightarrow> predict (Unreadable e) Empty v = (Empty, Inl e)"
  by (simp add: predict_def load_model_def load_model_body_def open_and_load_def)

lemma run_step:
  "run c ((art, v) # calls) =
     (fst (run (fst (predict art c v)) calls),
      snd (predict art c v) # snd (run (fst (predict art c v)) calls))"
  by (simp split: prod.split)

lemma run_stored_state: "fst (run (Stored obj) calls) = Stored obj"
proof (induction calls)
  case Nil
  show ?case by simp
next
  case (Cons call calls)
  obtain art v where call: "call = (art, v)" by (cases call)
  from Cons show ?case
    unfolding call run_step by (simp add: predict_stored)
qed

lemma run_stored_results:
  "snd (run (Stored obj) calls) = map (\<lambda>(art, v). snd (predict Missing (Stored obj) v)) calls"
proof (induction calls)
  case Nil
  show ?case by simp
next
  case (Cons call calls)
  obtain art v where call: "call = (art, v)" by (cases call)
  have "predict art (Stored obj) v = predict Missing (Stored obj) v"
    by (rule predict_stored_artifact)
  with Cons show ?case
    unfolding call run_step by (simp add: predict_stored)
qed

lemma run_none_results:
  "snd (run (Stored PyNone) calls) = replicate (length calls) (Inr None)"
proof (induction calls)
  case Nil
  show ?case by simp
next
  case (Cons call calls)
  obtain art v where call: "call = (art, v)" by (cases call)
  from Cons show ?case
    unfolding call run_step by (simp add: predict_none)
qed

lemma one_row_example: "one_row_model [example_features] = Inr [1]"
  by (simp add: one_row_model_def example_features_def)

text \<open>
  Counterexample to C4 as stated: the file is there but cannot be read
  (\<^verbatim>\<open>PermissionError\<close> from \<^verbatim>\<open>open\<close>). \<^verbatim>\<open>load_model\<close> catches only
  \<^verbatim>\<open>FileNotFoundError\<close>, so the exception leaves \<^verbatim>\<open>predict\<close>: the call does not return
  \<^verbatim>\<open>None\<close>.
\<close>

theorem unreadable_artifact_raises:
  "predict (Unreadable PermissionError) (Empty :: int cache)
     [PyFloat 1, PyFloat 0, PyFloat 0, PyFloat 25, PyFloat 0, PyFloat 0, PyFloat 0,
       PyFloat 0, PyFloat 0, PyFloat 0, PyFloat 0, PyFloat 3, PyInt 0, PyInt 0, PyFloat 0,
       PyFloat 1, PyInt 3, PyInt 4, PyInt 5]
   = (Empty, Inl PermissionError)"
  by (simp add: predict_unreadable)

text \<open>
  C4, amended. If the model file is missing at load time, then for every feature list
  \<^verbatim>\<open>predict\<close> returns \<^verbatim>\<open>None\<close> and no exception leaves the call; so do all later calls
  of the process, whatever the file is by then.
\<close>

theorem missing_artifact_returns_none:
  "predict Missing (Empty :: 'l cache) v = (Stored PyNone, Inr None) \<and>
   snd (run (Empty :: 'l cache) ((Missing, v) # calls))
     = replicate (Suc (length calls)) (Inr None)"
  using run_none_results [of calls]
  unfolding run_step by (simp add: predict_missing)

text \<open>
  C5. With the model loaded (cached, or read by this very call), \<^verbatim>\<open>predict\<close> calls the
  model's \<^verbatim>\<open>predict\<close> on the batch of the one given row and returns the first label of
  the sequence it gets, unchanged; a model that answers 1 gives the result 1.
\<close>

theorem predict_first_label:
  assumes "model_predict [v] = Inr (label # rest)"
  shows "predict art (Stored (Classifier model_predict)) v
           = (Stored (Classifier model_predict), Inr (Some label)) \<and>
         predict (Holds (Classifier model_predict)) Empty v
           = (Stored (Classifier model_predict), Inr (Some label))"
  using assms
  by (simp add: predict_def load_model_def load_model_body_def open_and_load_def)

theorem predict_first_label_witness:
  "one_row_model [example_features] = Inr [1] \<and>
   predict Missing (Stored (Classifier one_row_model)) example_features
     = (Stored (Classifier one_row_model), Inr (Some 1)) \<and>
   predict (Holds (Classifier one_row_model)) Empty example_features
     = (Stored (Classifier one_row_model), Inr (Some 1))"
  using predict_first_label [of one_row_model example_features 1 "[]" Missing]
    one_row_example
  by simp

text \<open>
  C9. Two calls of \<^verbatim>\<open>predict\<close> with the same feature list against the same loaded model
  give the same result, whether the model was already cached before the first call or is
  read by it.
\<close>

theorem predict_twice_same_label:
  "snd (predict art2 (fst (predict art1 (Stored obj) v)) v) = snd (predict art1 (Stored obj) v)
   \<and> snd (predict art2 (fst (predict (Holds obj) Empty v)) v)
       = snd (predict (Holds obj) Empty v)"
proof -
  have "predict art2 (Stored obj) v = predict art1 (Stored obj) v"
    by (rule predict_stored_artifact)
  then show ?thesis
    by (simp add: predict_stored predict_holds [of obj v art1])
qed

text \<open>
  Counterexample to C6 as stated: the file cannot be unpickled. The first call's load
  fails, yet the invoker is not in a terminal state: nothing is cached, the second call
  reads the file again, and neither call returns \<^verbatim>\<open>None\<close>.
\<close>

theorem failed_load_not_terminal:
  "run (Empty :: int cache)
     [(Unreadable UnpicklingError, [PyFloat 1, PyFloat 0, PyFloat 0, PyFloat 25, PyFloat 0,
        PyFloat 0, PyFloat 0, PyFloat 0, PyFloat 0, PyFloat 0, PyFloat 0, PyFloat 3, PyInt 0,
        PyInt 0, PyFloat 0, PyFloat 1, PyInt 3, PyInt 4, PyInt 5]),
      (Unreadable UnpicklingError, [PyFloat 1, PyFloat 0, PyFloat 0, PyFloat 25, PyFloat 0,
        PyFloat 0, PyFloat 0, PyFloat 0, PyFloat 0, PyFloat 0, PyFloat 0, PyFloat 3, PyInt 0,
        PyInt 0, PyFloat 0, PyFloat 1, PyInt 3, PyInt 4, PyInt 5])]
   = (Empty, [Inl UnpicklingError, Inl UnpicklingError])"
  unfolding run_step by (simp add: predict_unreadable)

text \<open>
  C6, amended. The invoker has the states Unloaded (initial), Loaded and LoadFailed, the
  last two terminal. Once it has left Unloaded, no sequence of calls changes the cache (so
  it never returns to Unloaded and every call sees the same cached object) and no call
  reads the file (its results are those it would give with the file missing); in
  LoadFailed every call returns \<^verbatim>\<open>None\<close>. From Unloaded, a call that finds the file
  missing returns \<^verbatim>\<open>None\<close> and enters LoadFailed; a call that unpickles an object caches
  that object; a call whose load raises another exception passes it on and stays in
  Unloaded, so the next call loads again.
\<close>

theorem invoker_states:
  fixes c :: "'l cache" and obj :: "'l pyobj"
  shows "(state_of c \<noteq> Unloaded \<longrightarrow>
      fst (run c calls) = c \<and>
      snd (run c calls) = map (\<lambda>(art, v). snd (predict Missing c v)) calls) \<and>
   snd (run (Stored PyNone) calls) = replicate (length calls) (Inr None) \<and>
   predict Missing (Empty :: 'l cache) v = (Stored PyNone, Inr None) \<and>
   state_of (fst (predict Missing (Empty :: 'l cache) v)) = LoadFailed \<and>
   fst (predict (Holds obj) Empty v) = Stored obj \<and>
   (e \<noteq> FileNotFoundError \<longrightarrow>
      predict (Unreadable e) (Empty :: 'l cache) v = (Empty, Inl e))"
proof -
  have a: "fst (run c calls) = c
      \<and> snd (run c calls) = map (\<lambda>(art, v). snd (predict Missing c v)) calls"
    if "state_of c \<noteq> Unloaded"
  proof -
    from that obtain obj' where "c = Stored obj'" by (cases c) auto
    then show ?thesis by (simp add: run_stored_state run_stored_results)
  qed
  have "fst (predict (Holds obj) Empty v) = Stored obj"
    by (simp add: predict_holds [of obj v Missing] predict_stored)
  with a show ?thesis
    by (simp add: predict_missing predict_unreadable run_none_results)
qed

theorem invoker_states_witness:
  "state_of (Stored (Classifier one_row_model)) \<noteq> Unloaded \<and>
   PermissionError \<noteq> FileNotFoundError \<and>
   run (Stored (Classifier one_row_model))
     [(Missing, example_features), (Unreadable PermissionError, example_features)]
     = (Stored (Classifier one_row_model), [Inr (Some 1), Inr (Some 1)]) \<and>
   predict (Unreadable PermissionError) (Empty :: int cache) example_features
     = (Empty, Inl PermissionError)"
proof -
  let ?c = "Stored (Classifier one_row_model)"
  let ?calls = "[(Missing, example_features), (Unreadable PermissionError, example_features)]
    :: (int artifact \<times> pyval list) list"
  have s: "state_of ?c \<noteq> Unloaded" by simp
  have e: "PermissionError \<noteq> FileNotFoundError" by simp
  have p: "predict Missing ?c example_features = (?c, Inr (Some 1))"
    by (simp add: predict_def load_model_def one_row_example)
  note th = invoker_states [of ?c ?calls example_features PyNone PermissionError]
  from th have "state_of ?c \<noteq> Unloaded \<longrightarrow>
      fst (run ?c ?calls) = ?c \<and>
      snd (run ?c ?calls) = map (\<lambda>(art, v). snd (predict Missing ?c v)) ?calls"
    by (rule conjunct1)
  from this s have "fst (run ?c ?calls) = ?c \<and>
      snd (run ?c ?calls) = map (\<lambda>(art, v). snd (predict Missing ?c v)) ?calls"
    by (rule mp)
  with p have r: "run ?c ?calls = (?c, [Inr (Some 1), Inr (Some 1)])"
    by (simp add: prod_eq_iff del: run.simps)
  from th e have "predict (Unreadable PermissionError) (Empty :: int cache) example_features
      = (Empty, Inl PermissionError)"
    by (simp del: run.simps)
  with r s e show ?thesis
    by (simp del: run.simps)
qed

end
